theory Spec2Isabelle
  imports Complex_Main
begin

section \<open>The game-state route: data model\<close>

text \<open>
  The server half of \<^verbatim>\<open>src/app/page.tsx\<close> (from the second \<^verbatim>\<open>interface Player\<close> on) keeps
  one module-level \<^verbatim>\<open>gameState\<close> and serves it through \<^verbatim>\<open>GET\<close> and \<^verbatim>\<open>POST\<close>.
  JavaScript numbers are modelled as follows: timestamps (\<^verbatim>\<open>Date.now()\<close>) and scores are
  integers, results of \<^verbatim>\<open>Math.random()\<close> and the coordinates of food, which are products of
  such results and constants, are reals.
\<close>

text \<open>
  The coordinates of a player come from the request body, which is untyped: \<^verbatim>\<open>Math.min\<close> and
  \<^verbatim>\<open>Math.max\<close> read \<^verbatim>\<open>data.x\<close> and \<^verbatim>\<open>data.y\<close> as numbers whatever the body holds. \<open>number\<close>
  is what they read: a finite value, an infinity (a numeric literal beyond the range of a
  double), or \<open>NaN\<close>, which is what an absent field (\<^verbatim>\<open>undefined\<close>) and a field that is not
  numeric are read as. The two functions return \<open>NaN\<close> as soon as an argument is \<open>NaN\<close>; among
  other numbers they depend on the order alone.
\<close>

datatype number = Num real | Infinity | NegInfinity | NaN

fun Math_min :: "number \<Rightarrow> number \<Rightarrow> number" where
  "Math_min NaN b = NaN"
| "Math_min a NaN = NaN"
| "Math_min NegInfinity b = NegInfinity"
| "Math_min a NegInfinity = NegInfinity"
| "Math_min Infinity b = b"
| "Math_min a Infinity = a"
| "Math_min (Num a) (Num b) = Num (min a b)"

fun Math_max :: "number \<Rightarrow> number \<Rightarrow> number" where
  "Math_max NaN b = NaN"
| "Math_max a NaN = NaN"
| "Math_max Infinity b = Infinity"
| "Math_max a Infinity = Infinity"
| "Math_max NegInfinity b = b"
| "Math_max a NegInfinity = a"
| "Math_max (Num a) (Num b) = Num (max a b)"

record Player =
  id :: string
  username :: string
  x :: number
  y :: number
  color :: string
  score :: int
  lastUpdate :: int

record Food =
  id :: string
  x :: real
  y :: real
  color :: string

text \<open>
  \<^verbatim>\<open>players: Map<string, Player>\<close> is an association list in insertion order, which is the
  order a JavaScript \<^verbatim>\<open>Map\<close> iterates in.
\<close>

record GameState =
  players :: "(string \<times> Player) list"
  food :: "Food list"
  lastUpdate :: int

definition CANVAS_WIDTH :: real where "CANVAS_WIDTH = 800"
definition CANVAS_HEIGHT :: real where "CANVAS_HEIGHT = 600"
definition PLAYER_SIZE :: real where "PLAYER_SIZE = 20"
definition FOOD_SIZE :: real where "FOOD_SIZE = 8"
definition FOOD_COUNT :: nat where "FOOD_COUNT = 50"
definition PLAYER_TIMEOUT :: int where "PLAYER_TIMEOUT = 10000"

subsection \<open>The methods of \<^verbatim>\<open>Map\<close> the handlers call\<close>

definition Map_get :: "('k \<times> 'v) list \<Rightarrow> 'k \<Rightarrow> 'v option" where
  "Map_get m k = map_of m k"

definition Map_has :: "('k \<times> 'v) list \<Rightarrow> 'k \<Rightarrow> bool" where
  "Map_has m k = (Map_get m k \<noteq> None)"

text \<open>\<^verbatim>\<open>set\<close> on a key that is present replaces the value where it stands; a new key goes last.\<close>

fun Map_set :: "('k \<times> 'v) list \<Rightarrow> 'k \<Rightarrow> 'v \<Rightarrow> ('k \<times> 'v) list" where
  "Map_set [] k v = [(k, v)]"
| "Map_set (e # m) k v = (if fst e = k then (k, v) # m else e # Map_set m k v)"

definition Map_delete :: "('k \<times> 'v) list \<Rightarrow> 'k \<Rightarrow> ('k \<times> 'v) list" where
  "Map_delete m k = filter (\<lambda>e. fst e \<noteq> k) m"

definition Map_values :: "('k \<times> 'v) list \<Rightarrow> 'v list" where
  "Map_values m = map snd m"

text \<open>\<^verbatim>\<open>Array.prototype.findIndex\<close>: the first index whose element passes, \<open>None\<close> for \<open>-1\<close>.\<close>

fun findIndex :: "('a \<Rightarrow> bool) \<Rightarrow> 'a list \<Rightarrow> nat option" where
  "findIndex P [] = None"
| "findIndex P (a # as) =
     (if P a then Some 0 else (case findIndex P as of None \<Rightarrow> None | Some i \<Rightarrow> Some (Suc i)))"

text \<open>\<^verbatim>\<open>food.splice(foodIndex, 1)\<close>: the list without the element at that index.\<close>

definition splice1 :: "nat \<Rightarrow> 'a list \<Rightarrow> 'a list" where
  "splice1 i as = take i as @ drop (Suc i) as"

subsection \<open>What a request reads from its environment\<close>

text \<open>
  One call of \<^verbatim>\<open>generateFood\<close> reads the clock once and \<^verbatim>\<open>Math.random()\<close> four times.
  The id is the template string \<^verbatim>\<open>food-${Date.now()}-${Math.random()}\<close>; the decimal texts of
  its two numbers are taken from the environment as they are.
\<close>

record FoodDraw =
  clockText :: string
  idText :: string
  rx :: real
  ry :: real
  rcolor :: real

text \<open>
  The reads of one \<^verbatim>\<open>POST\<close> besides its own \<^verbatim>\<open>Date.now()\<close>: the draws of its \<open>i\<close>-th call of
  \<^verbatim>\<open>generateFood\<close>, and the three \<^verbatim>\<open>Math.random()\<close> results a join uses for the new player.
\<close>

record Env =
  foodDraws :: "nat \<Rightarrow> FoodDraw"
  px :: real
  py :: real
  pcolor :: real

definition playerColors :: "string list" where
  "playerColors =
     [''#FF6B6B'', ''#4ECDC4'', ''#45B7D1'', ''#96CEB4'', ''#FFEAA7'', ''#DDA0DD'', ''#98D8C8'', ''#F7DC6F'']"

definition foodColors :: "string list" where
  "foodColors = [''#FF4757'', ''#2ED573'', ''#3742FA'', ''#FF6348'', ''#FFA502'']"

text \<open>
  \<^verbatim>\<open>colors[Math.floor(Math.random() * colors.length)]\<close>. \<^verbatim>\<open>Math.random()\<close> returns a number
  \<open>r\<close> with \<open>0 \<le> r < 1\<close>, for which the index is in range (lemma \<open>pick_index_in_range\<close>).
\<close>

definition pick :: "string list \<Rightarrow> real \<Rightarrow> string" where
  "pick colors r = colors ! nat \<lfloor>r * real (length colors)\<rfloor>"

definition generateColor :: "real \<Rightarrow> string" where
  "generateColor r = pick playerColors r"

definition generateFood :: "FoodDraw \<Rightarrow> Food" where
  "generateFood d =
     \<lparr> Food.id = ''food-'' @ clockText d @ ''-'' @ idText d,
       x = rx d * (CANVAS_WIDTH - FOOD_SIZE),
       y = ry d * (CANVAS_HEIGHT - FOOD_SIZE),
       color = pick foodColors (rcolor d) \<rparr>"

definition initializeFood :: "Env \<Rightarrow> GameState \<Rightarrow> GameState" where
  "initializeFood e gs =
     (if length (GameState.food gs) = 0
      then gs\<lparr>GameState.food := map (\<lambda>i. generateFood (foodDraws e i)) [0..<FOOD_COUNT]\<rparr>
      else gs)"

section \<open>The handlers\<close>

subsection \<open>\<^verbatim>\<open>cleanupPlayers\<close>\<close>

definition stale :: "int \<Rightarrow> Player \<Rightarrow> bool" where
  "stale now player = (now - Player.lastUpdate player > PLAYER_TIMEOUT)"

definition cleanupPlayers :: "int \<Rightarrow> GameState \<Rightarrow> GameState" where
  "cleanupPlayers now gs =
     (let playersToRemove = map fst (filter (\<lambda>e. stale now (snd e)) (GameState.players gs));
          remaining = fold (\<lambda>k m. Map_delete m k) playersToRemove (GameState.players gs)
      in gs\<lparr>GameState.players := remaining,
             GameState.lastUpdate :=
               (if length playersToRemove > 0 then now else GameState.lastUpdate gs)\<rparr>)"

subsection \<open>\<^verbatim>\<open>GET\<close>\<close>

text \<open>The object \<^verbatim>\<open>GET\<close> makes of a player: the six public fields, without the timestamp.\<close>

record PlayerData =
  id :: string
  username :: string
  x :: number
  y :: number
  color :: string
  score :: int

datatype Snapshot = Snapshot "PlayerData list" "Food list" int

definition playersData :: "GameState \<Rightarrow> PlayerData list" where
  "playersData gs =
     map (\<lambda>p. \<lparr> PlayerData.id = Player.id p, username = Player.username p,
                x = Player.x p, y = Player.y p, color = Player.color p,
                score = Player.score p \<rparr>)
         (Map_values (GameState.players gs))"

definition GET :: "int \<Rightarrow> GameState \<Rightarrow> Snapshot \<times> GameState" where
  "GET now gs =
     (let gs1 = cleanupPlayers now gs
      in (Snapshot (playersData gs1) (GameState.food gs1) (GameState.lastUpdate gs1), gs1))"

subsection \<open>\<^verbatim>\<open>POST\<close>\<close>

text \<open>
  The request body by its \<^verbatim>\<open>type\<close> field. \<open>Unknown\<close> is any other \<^verbatim>\<open>type\<close>; \<open>Unparsable\<close> is a
  body on which \<^verbatim>\<open>request.json()\<close> or the read of \<^verbatim>\<open>data.type\<close> throws. The handler checks
  no field of the body; the coordinates of a \<open>Move\<close> are \<^verbatim>\<open>data.x\<close> and \<^verbatim>\<open>data.y\<close> as \<^verbatim>\<open>Math.min\<close>
  reads them, so a move whose body has no \<^verbatim>\<open>x\<close> is \<open>Move playerId NaN dy\<close>.
\<close>

datatype Intent =
    Join string string
  | Move string number number
  | CollectFood string string
  | Heartbeat string
  | Leave string
  | Unknown
  | Unparsable

datatype Response =
    JoinOk Player
  | Ack
  | CollectOk Food int
  | Fail
  | UnknownAction
  | InternalServerError

definition POST :: "int \<Rightarrow> Env \<Rightarrow> Intent \<Rightarrow> GameState \<Rightarrow> Response \<times> GameState" where
  "POST now e intent gs =
     (case intent of
        Join playerId uname \<Rightarrow>
          (let gs1 = initializeFood e gs;
               newPlayer = \<lparr> Player.id = playerId, username = uname,
                             x = Num (px e * (CANVAS_WIDTH - PLAYER_SIZE)),
                             y = Num (py e * (CANVAS_HEIGHT - PLAYER_SIZE)),
                             color = generateColor (pcolor e),
                             score = 0, lastUpdate = now \<rparr>
           in (JoinOk newPlayer,
               gs1\<lparr>GameState.players := Map_set (GameState.players gs1) playerId newPlayer,
                    GameState.lastUpdate := now\<rparr>))
      | Move playerId dx dy \<Rightarrow>
          (case Map_get (GameState.players gs) playerId of
             Some player \<Rightarrow>
               (let newX = Math_max (Num 0) (Math_min (Num (CANVAS_WIDTH - PLAYER_SIZE)) dx);
                    newY = Math_max (Num 0) (Math_min (Num (CANVAS_HEIGHT - PLAYER_SIZE)) dy);
                    player1 = player\<lparr>Player.x := newX, Player.y := newY,
                                     Player.lastUpdate := now\<rparr>
                in (Ack,
                    gs\<lparr>GameState.players := Map_set (GameState.players gs) playerId player1,
                       GameState.lastUpdate := now\<rparr>))
           | None \<Rightarrow> (Ack, gs))
      | CollectFood playerId foodId \<Rightarrow>
          (case Map_get (GameState.players gs) playerId of
             Some player \<Rightarrow>
               (case findIndex (\<lambda>f. Food.id f = foodId) (GameState.food gs) of
                  Some foodIndex \<Rightarrow>
                    (let food1 = splice1 foodIndex (GameState.food gs);
                         player1 = player\<lparr>Player.score := Player.score player + 1,
                                          Player.lastUpdate := now\<rparr>;
                         newFood = generateFood (foodDraws e 0)
                     in (CollectOk newFood (Player.score player1),
                         gs\<lparr>GameState.players :=
                              Map_set (GameState.players gs) playerId player1,
                            GameState.food := food1 @ [newFood],
                            GameState.lastUpdate := now\<rparr>))
                | None \<Rightarrow> (Fail, gs))
           | None \<Rightarrow> (Fail, gs))
      | Heartbeat playerId \<Rightarrow>
          (case Map_get (GameState.players gs) playerId of
             Some player \<Rightarrow>
               (Ack,
                gs\<lparr>GameState.players :=
                     Map_set (GameState.players gs) playerId
                       (player\<lparr>Player.lastUpdate := now\<rparr>)\<rparr>)
           | None \<Rightarrow> (Ack, gs))
      | Leave playerId \<Rightarrow>
          (if Map_has (GameState.players gs) playerId
           then (Ack,
                 gs\<lparr>GameState.players := Map_delete (GameState.players gs) playerId,
                    GameState.lastUpdate := now\<rparr>)
           else (Ack, gs))
      | Unknown \<Rightarrow> (UnknownAction, gs)
      | Unparsable \<Rightarrow> (InternalServerError, gs))"

text \<open>
  In \<open>Move\<close>, \<open>CollectFood\<close> and \<open>Heartbeat\<close> the source tests \<^verbatim>\<open>players.has(playerId)\<close> and
  then assigns to fields of the object \<^verbatim>\<open>players.get(playerId)\<close> where it sits in the map;
  the model reads the entry once and writes the changed record back under its key, which
  leaves the entry in its place.
\<close>

subsection \<open>The field bound\<close>

text \<open>
  The stored position of a player lies in \<open>[0, 800 - 20] \<times> [0, 600 - 20]\<close>: both
  coordinates are finite numbers within the bounds.
\<close>

definition in_field :: "string \<Rightarrow> GameState \<Rightarrow> bool" where
  "in_field playerId gs =
     (case Map_get (GameState.players gs) playerId of
        None \<Rightarrow> False
      | Some p \<Rightarrow>
          (case (Player.x p, Player.y p) of
             (Num a, Num b) \<Rightarrow> 0 \<le> a \<and> a \<le> CANVAS_WIDTH - PLAYER_SIZE \<and>
                               0 \<le> b \<and> b \<le> CANVAS_HEIGHT - PLAYER_SIZE
           | _ \<Rightarrow> False))"

section \<open>The client: the pending move\<close>

text \<open>
  The part of the React component that a pending move passes through. The client's
  \<^verbatim>\<open>interface Player\<close> has the six public fields; the component computes with the coordinates
  of the local player, which are taken as reals.
\<close>

record ClientPlayer =
  id :: string
  username :: string
  x :: real
  y :: real
  color :: string
  score :: int

definition MOVE_SPEED :: real where "MOVE_SPEED = 3"

datatype Screen = login | connecting | playing | disconnected

text \<open>
  \<^verbatim>\<open>gameState\<close>, \<^verbatim>\<open>username\<close>, \<^verbatim>\<open>myPlayerId\<close> and \<^verbatim>\<open>players\<close> are state variables of the
  component, the three refs are the mutable cells of the same names; \<^verbatim>\<open>movementQueueRef\<close> has
  the type \<^verbatim>\<open>{ x, y } | null\<close>.

  A function made in a render reads the state variables of that render, and
  \<^verbatim>\<open>useCallback(f, deps)\<close> hands out the function made in the last render in which one of
  \<open>deps\<close> changed. The last two fields record what such functions hold:
  \<^item> \<open>connectToGame_myPlayerId\<close>: \<^verbatim>\<open>connectToGame\<close> is memoised on \<^verbatim>\<open>[username]\<close> and calls the
    \<^verbatim>\<open>startGameUpdates\<close> of the render it was made in. \<^verbatim>\<open>startGameUpdates\<close> is memoised on
    \<^verbatim>\<open>[myPlayerId, lastServerUpdate]\<close>, so the one of a render reads the \<^verbatim>\<open>myPlayerId\<close> of that
    render. The field is the \<^verbatim>\<open>myPlayerId\<close> that the \<^verbatim>\<open>startGameUpdates\<close> held by the current
    \<^verbatim>\<open>connectToGame\<close> reads.
  \<^item> \<open>updateIntervalRef\<close>: \<open>None\<close> when no interval runs, and otherwise the \<^verbatim>\<open>myPlayerId\<close> that the
    running interval's callback \<^verbatim>\<open>updateGame\<close> reads, which is the one of the
    \<^verbatim>\<open>startGameUpdates\<close> call that made it.
\<close>

record Component =
  gameState :: Screen
  username :: string
  myPlayerId :: string
  players :: "string \<rightharpoonup> ClientPlayer"
  keysRef :: "string set"
  lastPositionRef :: "real \<times> real"
  movementQueueRef :: "(real \<times> real) option"
  connectToGame_myPlayerId :: string
  updateIntervalRef :: "string option"

text \<open>The component as first rendered, from the initial values of \<^verbatim>\<open>useState\<close> and \<^verbatim>\<open>useRef\<close>.\<close>

definition mounted :: Component where
  "mounted = \<lparr> gameState = login, username = [], myPlayerId = [], players = Map.empty,
               keysRef = {}, lastPositionRef = (0, 0), movementQueueRef = None,
               connectToGame_myPlayerId = [], updateIntervalRef = None \<rparr>"

text \<open>
  \<^verbatim>\<open>onChange={(e) => setUsername(e.target.value)}\<close> of the input on the login screen, and the
  render that follows: when the name has changed, \<^verbatim>\<open>connectToGame\<close> is made anew and holds the
  \<^verbatim>\<open>startGameUpdates\<close> of this render.
\<close>

definition setUsername :: "string \<Rightarrow> Component \<Rightarrow> Component" where
  "setUsername u c =
     (if u = Component.username c then c
      else c\<lparr>Component.username := u, connectToGame_myPlayerId := myPlayerId c\<rparr>)"

text \<open>
  \<^verbatim>\<open>startGameUpdates\<close>, reading \<open>capturedId\<close> for \<^verbatim>\<open>myPlayerId\<close>: it clears the interval that runs
  and sets one whose callback \<^verbatim>\<open>updateGame\<close> reads the same \<^verbatim>\<open>myPlayerId\<close>. Its first call of
  \<^verbatim>\<open>updateGame\<close>, made at once, is a tick like those of the interval.
\<close>

definition startGameUpdates :: "string \<Rightarrow> Component \<Rightarrow> Component" where
  "startGameUpdates capturedId c = c\<lparr>updateIntervalRef := Some capturedId\<rparr>"

text \<open>
  \<^verbatim>\<open>connectToGame\<close>. \<open>playerId\<close> is the id it draws
  (\<^verbatim>\<open>Math.random().toString(36).substr(2, 9)\<close>), \<open>joined\<close> tells whether the join request came
  back with \<^verbatim>\<open>success\<close>. \<^verbatim>\<open>setMyPlayerId(playerId)\<close> changes the state variable for the renders to
  come; the \<^verbatim>\<open>startGameUpdates\<close> called after the \<^verbatim>\<open>await\<close> is the one \<^verbatim>\<open>connectToGame\<close> holds.
\<close>

definition connectToGame :: "string \<Rightarrow> bool \<Rightarrow> Component \<Rightarrow> Component" where
  "connectToGame playerId joined c =
     (let c1 = c\<lparr>gameState := connecting, myPlayerId := playerId\<rparr>
      in if joined
         then startGameUpdates (connectToGame_myPlayerId c) (c1\<lparr>gameState := playing\<rparr>)
         else c1\<lparr>gameState := disconnected\<rparr>)"

text \<open>\<^verbatim>\<open>handleLeaveGame\<close>: the interval is cleared and the state goes back to the login screen.\<close>

definition handleLeaveGame :: "Component \<Rightarrow> Component" where
  "handleLeaveGame c =
     c\<lparr>updateIntervalRef := None, gameState := login, Component.players := Map.empty,
       myPlayerId := []\<rparr>"

text \<open>
  One run of \<^verbatim>\<open>gameLoop\<close> up to and including the block "Queue movement for server
  update". The food-collision loop that follows it in the source only issues \<^verbatim>\<open>collectFood\<close>
  requests and never touches the three refs; it is not part of this model.
\<close>

definition gameLoop :: "Component \<Rightarrow> Component" where
  "gameLoop c =
     (case Component.players c (myPlayerId c) of
        None \<Rightarrow> c
      | Some myPlayer \<Rightarrow>
          (let newX = ClientPlayer.x myPlayer;
               newY = ClientPlayer.y myPlayer;
               moved = False;
               up = (''w'' \<in> keysRef c \<or> ''arrowup'' \<in> keysRef c);
               newY = (if up then max 0 (newY - MOVE_SPEED) else newY);
               moved = (if up then True else moved);
               down = (''s'' \<in> keysRef c \<or> ''arrowdown'' \<in> keysRef c);
               newY = (if down then min (CANVAS_HEIGHT - PLAYER_SIZE) (newY + MOVE_SPEED) else newY);
               moved = (if down then True else moved);
               left = (''a'' \<in> keysRef c \<or> ''arrowleft'' \<in> keysRef c);
               newX = (if left then max 0 (newX - MOVE_SPEED) else newX);
               moved = (if left then True else moved);
               right = (''d'' \<in> keysRef c \<or> ''arrowright'' \<in> keysRef c);
               newX = (if right then min (CANVAS_WIDTH - PLAYER_SIZE) (newX + MOVE_SPEED) else newX);
               moved = (if right then True else moved)
           in if moved \<and> (newX \<noteq> fst (lastPositionRef c) \<or> newY \<noteq> snd (lastPositionRef c))
              then c\<lparr>lastPositionRef := (newX, newY),
                     movementQueueRef := Some (newX, newY),
                     Component.players :=
                       (Component.players c)
                         (myPlayerId c \<mapsto> myPlayer\<lparr>ClientPlayer.x := newX, ClientPlayer.y := newY\<rparr>)\<rparr>
              else c))"

text \<open>
  The first block of \<^verbatim>\<open>updateGame\<close>, "Send any pending movement", in a callback that reads
  \<open>capturedId\<close> for \<^verbatim>\<open>myPlayerId\<close> (an empty string is falsy): the requests it issues and the
  component afterwards. \<open>delivered\<close> tells whether the awaited \<^verbatim>\<open>apiCall\<close> returned, for only
  then is the cell set back to \<^verbatim>\<open>null\<close>. The block is one step of the model: frames that run
  while the call is in flight are not interleaved with it. The snapshot half of
  \<^verbatim>\<open>updateGame\<close> does not read or write the cell.
\<close>

definition updateGame_sendPending :: "string \<Rightarrow> bool \<Rightarrow> Component \<Rightarrow> Intent list \<times> Component" where
  "updateGame_sendPending capturedId delivered c =
     (case movementQueueRef c of
        Some m \<Rightarrow>
          (if capturedId \<noteq> []
           then ([Move capturedId (Num (fst m)) (Num (snd m))],
                 if delivered then c\<lparr>movementQueueRef := None\<rparr> else c)
           else ([], c))
      | None \<Rightarrow> ([], c))"

text \<open>A network tick: the callback of the interval that runs, if one does.\<close>

definition updateGame :: "bool \<Rightarrow> Component \<Rightarrow> Intent list \<times> Component" where
  "updateGame delivered c =
     (case updateIntervalRef c of
        None \<Rightarrow> ([], c)
      | Some capturedId \<Rightarrow> updateGame_sendPending capturedId delivered c)"

text \<open>
  Animation frames between two network ticks: before each frame the key handlers have left
  \<^verbatim>\<open>keysRef\<close> holding the given set of keys.
\<close>

definition frames :: "string set list \<Rightarrow> Component \<Rightarrow> Component" where
  "frames ks c = fold (\<lambda>k c'. gameLoop (c'\<lparr>keysRef := k\<rparr>)) ks c"

text \<open>
  The cell is empty or holds the position \<^verbatim>\<open>gameLoop\<close> computed last: both refs are assigned
  the same pair in the same branch.
\<close>

definition cell_latest :: "Component \<Rightarrow> bool" where
  "cell_latest c \<longleftrightarrow>
     movementQueueRef c = None \<or> movementQueueRef c = Some (lastPositionRef c)"

text \<open>
  What the handlers above keep true from the first render on: no function holds a player id
  but the empty one, and on the login screen the state variable is empty too.
\<close>

definition closures_stale :: "Component \<Rightarrow> bool" where
  "closures_stale c \<longleftrightarrow>
     connectToGame_myPlayerId c = [] \<and>
     (updateIntervalRef c = None \<or> updateIntervalRef c = Some []) \<and>
     (gameState c \<noteq> login \<or> myPlayerId c = [])"

section \<open>Example states\<close>

definition alice :: Player where
  "alice = \<lparr> Player.id = ''a'', username = ''Alice'', x = Num 10, y = Num 10,
             color = ''#FF6B6B'', score = 5, lastUpdate = 1000 \<rparr>"

definition bob :: Player where
  "bob = \<lparr> Player.id = ''b'', username = ''Bob'', x = Num 300, y = Num 200,
           color = ''#4ECDC4'', score = 2, lastUpdate = 95000 \<rparr>"

definition apple :: Food where
  "apple = \<lparr> Food.id = ''food-1-0.5'', x = 100, y = 100, color = ''#FF4757'' \<rparr>"

definition pear :: Food where
  "pear = \<lparr> Food.id = ''food-2-0.75'', x = 40, y = 500, color = ''#2ED573'' \<rparr>"

definition world0 :: GameState where
  "world0 = \<lparr> GameState.players = [(''a'', alice), (''b'', bob)],
              food = [apple, pear], lastUpdate = 95000 \<rparr>"

definition draw0 :: FoodDraw where
  "draw0 = \<lparr> clockText = ''100000'', idText = ''0.25'', rx = 1 / 2, ry = 1 / 4, rcolor = 0 \<rparr>"

definition env0 :: Env where
  "env0 = \<lparr> foodDraws = (\<lambda>i. draw0), px = 1 / 4, py = 1 / 2, pcolor = 0 \<rparr>"

definition me :: ClientPlayer where
  "me = \<lparr> ClientPlayer.id = ''me'', username = ''Me'', x = 2, y = 2,
          color = ''#FF6B6B'', score = 0 \<rparr>"

text \<open>
  A session of the client: the user types the name \<open>Me\<close> on the login screen and presses
  "Play Now"; \<^verbatim>\<open>connectToGame\<close> draws the id \<open>me\<close> and the join succeeds; the first snapshot
  puts the player at \<open>(2, 2)\<close>.
\<close>

definition session0 :: Component where
  "session0 =
     (connectToGame ''me'' True (setUsername ''Me'' mounted))
       \<lparr>Component.players := [''me'' \<mapsto> me]\<rparr>"

section \<open>Basic facts\<close>

subsection \<open>The map of players\<close>

lemma Map_has_iff: "Map_has m k \<longleftrightarrow> (\<exists>v. Map_get m k = Some v)"
  by (simp add: Map_has_def)

lemma Map_get_set: "Map_get (Map_set m k v) k' = (if k' = k then Some v else Map_get m k')"
  by (induction m) (auto simp: Map_get_def)

lemma Map_has_set: "Map_has (Map_set m k v) k' \<longleftrightarrow> k' = k \<or> Map_has m k'"
  by (simp add: Map_has_def Map_get_set)

lemma keys_Map_set_present:
  "Map_get m k = Some v \<Longrightarrow> map fst (Map_set m k w) = map fst m"
  by (induction m) (auto simp: Map_get_def split: if_splits)

lemma keys_Map_set: "set (map fst (Map_set m k v)) = insert k (set (map fst m))"
  by (induction m) auto

text \<open>Writing to a key that is present changes that one entry and nothing else.\<close>

lemma Map_set_split:
  "Map_get m k = Some v \<Longrightarrow>
     \<exists>ps qs. m = ps @ (k, v) # qs \<and> k \<notin> fst ` set ps \<and> Map_set m k w = ps @ (k, w) # qs"
proof (induction m)
  case Nil
  then show ?case by (simp add: Map_get_def)
next
  case (Cons e m)
  show ?case
  proof (cases "fst e = k")
    case True
    with Cons.prems have "e = (k, v)" by (cases e) (simp add: Map_get_def)
    then have "e # m = [] @ (k, v) # m \<and> k \<notin> fst ` set [] \<and> Map_set (e # m) k w = [] @ (k, w) # m"
      by simp
    then show ?thesis by blast
  next
    case False
    with Cons.prems have "Map_get m k = Some v" by (cases e) (simp add: Map_get_def)
    from Cons.IH [OF this] obtain ps qs where
      "m = ps @ (k, v) # qs" "k \<notin> fst ` set ps" "Map_set m k w = ps @ (k, w) # qs" by blast
    with False have "e # m = (e # ps) @ (k, v) # qs \<and> k \<notin> fst ` set (e # ps) \<and>
        Map_set (e # m) k w = (e # ps) @ (k, w) # qs"
      by auto
    then show ?thesis by blast
  qed
qed

lemma fold_Map_delete:
  "fold (\<lambda>k m. Map_delete m k) ks m = filter (\<lambda>e. fst e \<notin> set ks) m"
  by (induction ks arbitrary: m) (auto simp: Map_delete_def intro: filter_cong)

text \<open>
  A JavaScript \<^verbatim>\<open>Map\<close> holds each key once. The association list starts empty and every
  handler keeps its keys distinct.
\<close>

lemma distinct_keys_unique:
  "distinct (map fst m) \<Longrightarrow> e \<in> set m \<Longrightarrow> e' \<in> set m \<Longrightarrow> fst e = fst e' \<Longrightarrow> e = e'"
  by (metis distinct_map inj_onD)

lemma distinct_keys_Map_set:
  "distinct (map fst m) \<Longrightarrow> distinct (map fst (Map_set m k v))"
proof (induction m)
  case Nil
  then show ?case by simp
next
  case (Cons e m)
  then show ?case
    using keys_Map_set [of m k v] by (cases "fst e = k") auto
qed

lemma distinct_keys_Map_delete:
  "distinct (map fst m) \<Longrightarrow> distinct (map fst (Map_delete m k))"
  by (simp add: Map_delete_def distinct_map_filter)

subsection \<open>Lists of food\<close>

lemma findIndex_None_iff: "findIndex P as = None \<longleftrightarrow> (\<forall>a \<in> set as. \<not> P a)"
  by (induction as) (auto split: option.splits)

lemma findIndex_present:
  "\<exists>a \<in> set as. P a \<Longrightarrow> \<exists>i. findIndex P as = Some i"
  using findIndex_None_iff [of P as] by auto

lemma findIndex_Some:
  "findIndex P as = Some i \<Longrightarrow> i < length as \<and> P (as ! i) \<and> (\<forall>j < i. \<not> P (as ! j))"
proof (induction as arbitrary: i)
  case Nil
  then show ?case by simp
next
  case (Cons a as)
  show ?case
  proof (cases "P a")
    case True
    with Cons.prems show ?thesis by simp
  next
    case False
    with Cons.prems obtain i' where i': "findIndex P as = Some i'" "i = Suc i'"
      by (auto split: option.splits)
    from Cons.IH [OF i'(1)] False i'(2) show ?thesis
      by (auto simp: nth_Cons split: nat.splits)
  qed
qed

lemma pick_index_in_range:
  assumes "0 \<le> r" "r < 1" "colors \<noteq> []"
  shows "nat \<lfloor>r * real (length colors)\<rfloor> < length colors"
proof -
  have "r * real (length colors) < real (length colors)"
    using assms by simp
  then have "\<lfloor>r * real (length colors)\<rfloor> < int (length colors)"
    by (simp add: floor_less_iff)
  moreover have "0 < length colors"
    using assms(3) by simp
  ultimately show ?thesis by linarith
qed

subsection \<open>The handlers, branch by branch\<close>

lemma players_initializeFood:
  "GameState.players (initializeFood e gs) = GameState.players gs"
  by (simp add: initializeFood_def)

lemma POST_collectFood_found:
  assumes "Map_get (GameState.players gs) playerId = Some player"
      and "findIndex (\<lambda>f. Food.id f = foodId) (GameState.food gs) = Some i"
  shows "POST now e (CollectFood playerId foodId) gs =
      (CollectOk (generateFood (foodDraws e 0)) (Player.score player + 1),
       gs\<lparr>GameState.players :=
            Map_set (GameState.players gs) playerId
              (player\<lparr>Player.score := Player.score player + 1, Player.lastUpdate := now\<rparr>),
          GameState.food :=
            take i (GameState.food gs) @ drop (Suc i) (GameState.food gs) @
            [generateFood (foodDraws e 0)],
          GameState.lastUpdate := now\<rparr>)"
  using assms by (simp add: POST_def splice1_def Let_def)

lemma clamp_numeric:
  assumes "0 \<le> h" and "d \<noteq> NaN"
  shows "\<exists>a. Math_max (Num 0) (Math_min (Num h) d) = Num a \<and> 0 \<le> a \<and> a \<le> h"
  using assms by (cases d) auto

lemma POST_move_present:
  assumes "Map_get (GameState.players gs) playerId = Some player"
  shows "POST now e (Move playerId dx dy) gs =
      (Ack,
       gs\<lparr>GameState.players :=
            Map_set (GameState.players gs) playerId
              (player\<lparr>Player.x := Math_max (Num 0) (Math_min (Num (CANVAS_WIDTH - PLAYER_SIZE)) dx),
                      Player.y := Math_max (Num 0) (Math_min (Num (CANVAS_HEIGHT - PLAYER_SIZE)) dy),
                      Player.lastUpdate := now\<rparr>),
          GameState.lastUpdate := now\<rparr>)"
  using assms by (simp add: POST_def Let_def)

text \<open>
  A move whose coordinates are numbers is clamped: the stored coordinates are finite, the
  nearest to the requested ones within the field.
\<close>

lemma move_numbers_clamped:
  assumes "Map_has (GameState.players gs) playerId"
  shows "fst (POST now e (Move playerId (Num a) (Num b)) gs) = Ack \<and>
         map_option (\<lambda>p. (Player.x p, Player.y p))
           (Map_get (GameState.players (snd (POST now e (Move playerId (Num a) (Num b)) gs)))
              playerId) =
           Some (Num (max 0 (min 780 a)), Num (max 0 (min 580 b)))"
proof -
  from assms obtain player where "Map_get (GameState.players gs) playerId = Some player"
    by (auto simp: Map_has_iff)
  then show ?thesis
    by (simp add: POST_move_present Map_get_set CANVAS_WIDTH_def CANVAS_HEIGHT_def
        PLAYER_SIZE_def)
qed

lemma move_step:
  assumes "Map_has (GameState.players gs) playerId" and "dx \<noteq> NaN" and "dy \<noteq> NaN"
  shows "fst (POST now e (Move playerId dx dy) gs) = Ack \<and>
         in_field playerId (snd (POST now e (Move playerId dx dy) gs)) \<and>
         Map_has (GameState.players (snd (POST now e (Move playerId dx dy) gs))) playerId"
proof -
  from assms(1) obtain player where
    player: "Map_get (GameState.players gs) playerId = Some player"
    by (auto simp: Map_has_iff)
  from clamp_numeric [OF _ assms(2), of "CANVAS_WIDTH - PLAYER_SIZE"] obtain a where
    a: "Math_max (Num 0) (Math_min (Num (CANVAS_WIDTH - PLAYER_SIZE)) dx) = Num a"
       "0 \<le> a" "a \<le> CANVAS_WIDTH - PLAYER_SIZE"
    by (auto simp: CANVAS_WIDTH_def PLAYER_SIZE_def)
  from clamp_numeric [OF _ assms(3), of "CANVAS_HEIGHT - PLAYER_SIZE"] obtain b where
    b: "Math_max (Num 0) (Math_min (Num (CANVAS_HEIGHT - PLAYER_SIZE)) dy) = Num b"
       "0 \<le> b" "b \<le> CANVAS_HEIGHT - PLAYER_SIZE"
    by (auto simp: CANVAS_HEIGHT_def PLAYER_SIZE_def)
  show ?thesis
    by (simp add: POST_move_present [OF player] a b in_field_def Map_get_set Map_has_set)
qed

text \<open>
  A move with a coordinate that is not a number is accepted all the same and the stored
  coordinate is \<open>NaN\<close>.
\<close>

lemma move_NaN_stored:
  assumes "Map_has (GameState.players gs) playerId"
  shows "fst (POST now e (Move playerId NaN dy) gs) = Ack \<and>
         map_option Player.x
           (Map_get (GameState.players (snd (POST now e (Move playerId NaN dy) gs))) playerId) =
           Some NaN \<and>
         \<not> in_field playerId (snd (POST now e (Move playerId NaN dy) gs))"
proof -
  from assms obtain player where "Map_get (GameState.players gs) playerId = Some player"
    by (auto simp: Map_has_iff)
  then show ?thesis
    by (simp add: POST_move_present Map_get_set in_field_def)
qed

lemma cleanupPlayers_none_stale:
  assumes "\<forall>e \<in> set (GameState.players gs). \<not> stale now (snd e)"
  shows "cleanupPlayers now gs = gs"
proof -
  from assms have "filter (\<lambda>e. stale now (snd e)) (GameState.players gs) = []"
    by (simp add: filter_empty_conv)
  then show ?thesis
    by (simp add: cleanupPlayers_def)
qed

lemma cleanupPlayers_changed:
  assumes "GameState.players (cleanupPlayers now gs) \<noteq> GameState.players gs"
  shows "GameState.lastUpdate (cleanupPlayers now gs) = now"
proof (cases "filter (\<lambda>e. stale now (snd e)) (GameState.players gs) = []")
  case True
  then have "GameState.players (cleanupPlayers now gs) = GameState.players gs"
    by (simp add: cleanupPlayers_def)
  with assms show ?thesis by simp
next
  case False
  then show ?thesis
    by (simp add: cleanupPlayers_def)
qed

lemma food_cleanupPlayers: "GameState.food (cleanupPlayers now gs) = GameState.food gs"
  by (simp add: cleanupPlayers_def Let_def)

lemma distinct_keys_POST:
  assumes "distinct (map fst (GameState.players gs))"
  shows "distinct (map fst (GameState.players (snd (POST now e intent gs))))"
proof (cases intent)
  case (Join playerId uname)
  with assms show ?thesis
    by (simp add: POST_def Let_def players_initializeFood distinct_keys_Map_set)
next
  case (Move playerId dx dy)
  with assms show ?thesis
    by (simp add: POST_def Let_def distinct_keys_Map_set split: option.splits)
next
  case (CollectFood playerId foodId)
  with assms show ?thesis
    by (simp add: POST_def Let_def distinct_keys_Map_set split: option.splits)
next
  case (Heartbeat playerId)
  with assms show ?thesis
    by (simp add: POST_def distinct_keys_Map_set split: option.splits)
next
  case (Leave playerId)
  with assms show ?thesis
    by (simp add: POST_def distinct_keys_Map_delete)
next
  case Unknown
  with assms show ?thesis by (simp add: POST_def)
next
  case Unparsable
  with assms show ?thesis by (simp add: POST_def)
qed

lemma distinct_keys_cleanupPlayers:
  "distinct (map fst (GameState.players gs)) \<Longrightarrow>
   distinct (map fst (GameState.players (cleanupPlayers now gs)))"
  by (simp add: cleanupPlayers_def Let_def fold_Map_delete distinct_map_filter)

subsection \<open>The pending-move cell\<close>

text \<open>The send block issues one request for the pair in the cell, and none for an empty cell.\<close>

lemma sendPending_reads_cell:
  "fst (updateGame_sendPending capturedId delivered c) =
     (case movementQueueRef c of
        None \<Rightarrow> []
      | Some m \<Rightarrow> if capturedId = [] then [] else [Move capturedId (Num (fst m)) (Num (snd m))])"
  by (simp add: updateGame_sendPending_def split: option.splits)

lemma cell_latest_Let: "(\<And>v. cell_latest (f v)) \<Longrightarrow> cell_latest (Let a f)"
  by simp

lemma gameLoop_cell_latest:
  assumes "cell_latest c"
  shows "cell_latest (gameLoop c)"
proof (cases "Component.players c (myPlayerId c)")
  case None
  with assms show ?thesis by (simp add: gameLoop_def)
next
  case (Some myPlayer)
  have queued: "cell_latest (if b then c\<lparr>lastPositionRef := p, movementQueueRef := Some p,
      Component.players := m\<rparr> else c)" for b p m
    using assms by (simp add: cell_latest_def)
  show ?thesis
    unfolding gameLoop_def Some option.case
    by (intro cell_latest_Let) (rule queued)
qed

lemma keys_cell_latest: "cell_latest c \<Longrightarrow> cell_latest (c\<lparr>keysRef := k\<rparr>)"
  by (simp add: cell_latest_def)

lemma frames_cell_latest: "cell_latest c \<Longrightarrow> cell_latest (frames ks c)"
  unfolding frames_def
  by (induction ks arbitrary: c) (simp_all add: gameLoop_cell_latest keys_cell_latest)

text \<open>
  After any number of frames from an empty cell, a tick whose callback reads a player id
  that is not empty sends the position computed last, once, and no earlier one.
\<close>

lemma frames_then_send_latest:
  assumes "movementQueueRef c = None" and "capturedId \<noteq> []"
  shows "fst (updateGame_sendPending capturedId delivered (frames ks c)) =
           (if movementQueueRef (frames ks c) = None then []
            else [Move capturedId (Num (fst (lastPositionRef (frames ks c))))
                    (Num (snd (lastPositionRef (frames ks c))))])"
proof -
  from assms(1) have "cell_latest c"
    by (simp add: cell_latest_def)
  then have "cell_latest (frames ks c)"
    by (rule frames_cell_latest)
  with assms(2) show ?thesis
    by (auto simp: cell_latest_def sendPending_reads_cell)
qed

subsection \<open>The player id the interval callback reads\<close>

lemma closures_stale_mounted: "closures_stale mounted"
  by (simp add: closures_stale_def mounted_def)

text \<open>The input is rendered on the login screen only.\<close>

lemma closures_stale_setUsername:
  "closures_stale c \<Longrightarrow> gameState c = login \<Longrightarrow> closures_stale (setUsername u c)"
  by (auto simp: closures_stale_def setUsername_def)

lemma closures_stale_connectToGame:
  "closures_stale c \<Longrightarrow> closures_stale (connectToGame playerId joined c)"
  by (simp add: closures_stale_def connectToGame_def startGameUpdates_def Let_def)

lemma closures_stale_handleLeaveGame:
  "closures_stale c \<Longrightarrow> closures_stale (handleLeaveGame c)"
  by (simp add: closures_stale_def handleLeaveGame_def)

lemma closures_stale_keys: "closures_stale c \<Longrightarrow> closures_stale (c\<lparr>keysRef := k\<rparr>)"
  by (simp add: closures_stale_def)

lemma closures_stale_Let: "(\<And>v. closures_stale (f v)) \<Longrightarrow> closures_stale (Let a f)"
  by simp

lemma closures_stale_gameLoop:
  assumes "closures_stale c"
  shows "closures_stale (gameLoop c)"
proof (cases "Component.players c (myPlayerId c)")
  case None
  with assms show ?thesis by (simp add: gameLoop_def)
next
  case (Some myPlayer)
  have queued: "closures_stale (if b then c\<lparr>lastPositionRef := p, movementQueueRef := Some p,
      Component.players := m\<rparr> else c)" for b p m
    using assms by (simp add: closures_stale_def)
  show ?thesis
    unfolding gameLoop_def Some option.case
    by (intro closures_stale_Let) (rule queued)
qed

lemma closures_stale_updateGame:
  "closures_stale c \<Longrightarrow> updateGame delivered c = ([], c)"
  by (auto simp: closures_stale_def updateGame_def updateGame_sendPending_def
      split: option.splits)

section \<open>Claims\<close>

text \<open>
  C1. Every state-changing operation assigns the clock reading \<^verbatim>\<open>now\<close> of its own request to
  \<^verbatim>\<open>gameState.lastUpdate\<close>; nothing is incremented. So whenever that reading is later than the
  value \<^verbatim>\<open>lastUpdate\<close> had before, a join, a move of a present player, a \<^verbatim>\<open>collectFood\<close> of a
  present player on a listed food id, a leave of a present player and a reaping pass that
  changes the player map each leave \<^verbatim>\<open>lastUpdate\<close> strictly greater than before. A heartbeat
  leaves it as it was, with no condition on the clock.
\<close>

theorem lastUpdate_follows_clock:
  "(GameState.lastUpdate gs < now \<longrightarrow>
      GameState.lastUpdate gs <
        GameState.lastUpdate (snd (POST now e (Join playerId uname) gs))) \<and>
   (GameState.lastUpdate gs < now \<and> Map_has (GameState.players gs) playerId \<longrightarrow>
      GameState.lastUpdate gs <
        GameState.lastUpdate (snd (POST now e (Move playerId dx dy) gs))) \<and>
   (GameState.lastUpdate gs < now \<and> Map_has (GameState.players gs) playerId \<and>
    (\<exists>f \<in> set (GameState.food gs). Food.id f = foodId) \<longrightarrow>
      GameState.lastUpdate gs <
        GameState.lastUpdate (snd (POST now e (CollectFood playerId foodId) gs))) \<and>
   (GameState.lastUpdate gs < now \<and> Map_has (GameState.players gs) playerId \<longrightarrow>
      GameState.lastUpdate gs <
        GameState.lastUpdate (snd (POST now e (Leave playerId) gs))) \<and>
   (GameState.lastUpdate gs < now \<and>
    GameState.players (cleanupPlayers now gs) \<noteq> GameState.players gs \<longrightarrow>
      GameState.lastUpdate gs < GameState.lastUpdate (cleanupPlayers now gs)) \<and>
   GameState.lastUpdate (snd (POST now e (Heartbeat playerId) gs)) = GameState.lastUpdate gs"
proof -
  have join: "GameState.lastUpdate (snd (POST now e (Join playerId uname) gs)) = now"
    by (simp add: POST_def Let_def)
  have move: "GameState.lastUpdate (snd (POST now e (Move playerId dx dy) gs)) = now"
    if "Map_has (GameState.players gs) playerId"
    using that by (auto simp: POST_move_present Map_has_iff)
  have collect: "GameState.lastUpdate (snd (POST now e (CollectFood playerId foodId) gs)) = now"
    if "Map_has (GameState.players gs) playerId"
       "\<exists>f \<in> set (GameState.food gs). Food.id f = foodId"
  proof -
    from that(1) obtain player where "Map_get (GameState.players gs) playerId = Some player"
      by (auto simp: Map_has_iff)
    moreover from that(2) obtain i where
      "findIndex (\<lambda>f. Food.id f = foodId) (GameState.food gs) = Some i"
      using findIndex_present [of "GameState.food gs" "\<lambda>f. Food.id f = foodId"] by blast
    ultimately show ?thesis
      by (simp add: POST_collectFood_found)
  qed
  have leave: "GameState.lastUpdate (snd (POST now e (Leave playerId) gs)) = now"
    if "Map_has (GameState.players gs) playerId"
    using that by (simp add: POST_def)
  have beat: "GameState.lastUpdate (snd (POST now e (Heartbeat playerId) gs)) =
      GameState.lastUpdate gs"
    by (simp add: POST_def split: option.splits)
  from join move collect leave beat cleanupPlayers_changed [of now gs]
  show ?thesis by simp
qed

text \<open>
  The witness takes all five operations on the example world at clock reading 100000, and
  a heartbeat in the very millisecond \<^verbatim>\<open>lastUpdate\<close> shows.
\<close>

theorem lastUpdate_follows_clock_witness:
  "GameState.lastUpdate world0 < 100000 \<and>
   Map_has (GameState.players world0) ''a'' \<and>
   list_ex (\<lambda>f. Food.id f = ''food-1-0.5'') (GameState.food world0) \<and>
   GameState.players (cleanupPlayers 100000 world0) \<noteq> GameState.players world0 \<and>
   GameState.lastUpdate world0 <
     GameState.lastUpdate (snd (POST 100000 env0 (Join ''c'' ''Carol'') world0)) \<and>
   GameState.lastUpdate world0 <
     GameState.lastUpdate (snd (POST 100000 env0 (Move ''a'' (Num 30) (Num 40)) world0)) \<and>
   GameState.lastUpdate world0 <
     GameState.lastUpdate (snd (POST 100000 env0 (CollectFood ''a'' ''food-1-0.5'') world0)) \<and>
   GameState.lastUpdate world0 <
     GameState.lastUpdate (snd (POST 100000 env0 (Leave ''a'') world0)) \<and>
   GameState.lastUpdate world0 < GameState.lastUpdate (cleanupPlayers 100000 world0) \<and>
   GameState.lastUpdate (snd (POST 95000 env0 (Heartbeat ''a'') world0)) =
     GameState.lastUpdate world0"
proof -
  have clock: "GameState.lastUpdate world0 < 100000"
    by (simp add: world0_def)
  have present: "Map_has (GameState.players world0) ''a''"
    by (simp add: Map_has_def Map_get_def world0_def)
  have listed: "\<exists>f \<in> set (GameState.food world0). Food.id f = ''food-1-0.5''"
    by (simp add: world0_def apple_def)
  have reaped: "GameState.players (cleanupPlayers 100000 world0) \<noteq> GameState.players world0"
    by (simp add: cleanupPlayers_def stale_def PLAYER_TIMEOUT_def Let_def Map_delete_def
        world0_def alice_def bob_def)
  from lastUpdate_follows_clock [where gs = world0 and now = 100000 and e = env0
         and playerId = "''c''" and uname = "''Carol''"]
       lastUpdate_follows_clock [where gs = world0 and now = 100000 and e = env0
         and playerId = "''a''" and dx = "Num 30" and dy = "Num 40"
         and foodId = "''food-1-0.5''"]
       lastUpdate_follows_clock [where gs = world0 and now = 95000 and e = env0
         and playerId = "''a''"]
       clock present listed reaped
  show ?thesis
    by (simp add: list_ex_iff)
qed

text \<open>
  As the claim puts it, with no condition on the clock, the property fails: a join served
  in the millisecond \<^verbatim>\<open>lastUpdate\<close> already shows leaves the value where it was.
\<close>

theorem lastUpdate_same_millisecond_counterexample:
  "\<not> GameState.lastUpdate world0 <
       GameState.lastUpdate (snd (POST 95000 env0 (Join ''c'' ''Carol'') world0))"
  by (simp add: POST_def Let_def initializeFood_def world0_def)

text \<open>
  C2. The handler clamps what \<^verbatim>\<open>Math.min\<close> and \<^verbatim>\<open>Math.max\<close> make of \<^verbatim>\<open>data.x\<close> and \<^verbatim>\<open>data.y\<close> and
  tests nothing else. A move of a present player whose body has no \<^verbatim>\<open>x\<close> is answered
  \<^verbatim>\<open>{success: true}\<close> like any other, and the position it stores has the \<open>x\<close> coordinate
  \<open>NaN\<close>: the player was inside \<open>[0, 800 - 20] \<times> [0, 600 - 20]\<close> before the move and is not
  after it. (For coordinates that are numbers the bound holds, see \<open>move_step\<close> and
  \<open>move_numbers_clamped\<close>.)
\<close>

theorem move_without_x_leaves_field:
  "POST 100000 env0 (Move ''a'' NaN (Num 5)) world0 =
     (Ack,
      \<lparr> GameState.players =
          [(''a'', alice\<lparr>Player.x := NaN, Player.y := Num 5, Player.lastUpdate := 100000\<rparr>),
           (''b'', bob)],
        food = [apple, pear], lastUpdate = 100000 \<rparr>) \<and>
   in_field ''a'' world0 \<and>
   \<not> in_field ''a'' (snd (POST 100000 env0 (Move ''a'' NaN (Num 5)) world0))"
proof -
  have present: "Map_get (GameState.players world0) ''a'' = Some alice"
    by (simp add: Map_get_def world0_def)
  have before: "in_field ''a'' world0"
    by (simp add: in_field_def present alice_def CANVAS_WIDTH_def CANVAS_HEIGHT_def
        PLAYER_SIZE_def)
  have post: "POST 100000 env0 (Move ''a'' NaN (Num 5)) world0 =
     (Ack,
      \<lparr> GameState.players =
          [(''a'', alice\<lparr>Player.x := NaN, Player.y := Num 5, Player.lastUpdate := 100000\<rparr>),
           (''b'', bob)],
        food = [apple, pear], lastUpdate = 100000 \<rparr>)"
    unfolding POST_move_present [OF present]
    by (simp add: world0_def CANVAS_HEIGHT_def PLAYER_SIZE_def)
  have after: "\<not> in_field ''a'' (snd (POST 100000 env0 (Move ''a'' NaN (Num 5)) world0))"
    by (simp add: post in_field_def Map_get_def)
  from post before after show ?thesis by simp
qed

text \<open>
  C3. A \<^verbatim>\<open>collectFood\<close> by a present player on a food id in the food list removes the first
  item with that id (index \<open>i\<close> below) and nothing else, appends the one item
  \<^verbatim>\<open>generateFood\<close> returns, so the list keeps its length, adds exactly \<open>1\<close> to the score of the
  acting player, and answers \<^verbatim>\<open>{success: true, newFood, playerScore}\<close> with that item and the
  new score.
\<close>

theorem collectFood_swaps_one_food:
  assumes "Map_get (GameState.players gs) playerId = Some player"
      and "\<exists>f \<in> set (GameState.food gs). Food.id f = foodId"
  shows "\<exists>i. i < length (GameState.food gs) \<and>
             Food.id (GameState.food gs ! i) = foodId \<and>
             (\<forall>j < i. Food.id (GameState.food gs ! j) \<noteq> foodId) \<and>
             POST now e (CollectFood playerId foodId) gs =
               (CollectOk (generateFood (foodDraws e 0)) (Player.score player + 1),
                gs\<lparr>GameState.players :=
                     Map_set (GameState.players gs) playerId
                       (player\<lparr>Player.score := Player.score player + 1,
                               Player.lastUpdate := now\<rparr>),
                   GameState.food :=
                     take i (GameState.food gs) @ drop (Suc i) (GameState.food gs) @
                     [generateFood (foodDraws e 0)],
                   GameState.lastUpdate := now\<rparr>) \<and>
             length (GameState.food (snd (POST now e (CollectFood playerId foodId) gs))) =
               length (GameState.food gs) \<and>
             Map_get (GameState.players (snd (POST now e (CollectFood playerId foodId) gs)))
               playerId =
               Some (player\<lparr>Player.score := Player.score player + 1,
                            Player.lastUpdate := now\<rparr>)"
proof -
  from assms(2) obtain i where
    found: "findIndex (\<lambda>f. Food.id f = foodId) (GameState.food gs) = Some i"
    using findIndex_None_iff [of "\<lambda>f. Food.id f = foodId" "GameState.food gs"] by auto
  from findIndex_Some [OF found] have
    i: "i < length (GameState.food gs)" "Food.id (GameState.food gs ! i) = foodId"
       "\<forall>j < i. Food.id (GameState.food gs ! j) \<noteq> foodId"
    by auto
  note post = POST_collectFood_found [OF assms(1) found, of now e]
  have len: "length (take i (GameState.food gs) @ drop (Suc i) (GameState.food gs) @
      [generateFood (foodDraws e 0)]) = length (GameState.food gs)"
    using i(1) by simp
  show ?thesis
    using i post len by (intro exI [of _ i]) (simp add: Map_get_set)
qed

text \<open>The witness lets Alice collect the second item of the example world.\<close>

theorem collectFood_swaps_one_food_witness:
  "Map_get (GameState.players world0) ''a'' = Some alice \<and>
   list_ex (\<lambda>f. Food.id f = ''food-2-0.75'') (GameState.food world0) \<and>
   POST 100000 env0 (CollectFood ''a'' ''food-2-0.75'') world0 =
     (CollectOk (generateFood draw0) 6,
      \<lparr> GameState.players =
          [(''a'', alice\<lparr>Player.score := 6, Player.lastUpdate := 100000\<rparr>), (''b'', bob)],
        food = [apple, generateFood draw0], lastUpdate = 100000 \<rparr>)"
proof -
  have present: "Map_get (GameState.players world0) ''a'' = Some alice"
    by (simp add: Map_get_def world0_def)
  have listed: "\<exists>f \<in> set (GameState.food world0). Food.id f = ''food-2-0.75''"
    by (simp add: world0_def pear_def)
  from collectFood_swaps_one_food [OF present listed, of 100000 env0] present listed
  show ?thesis
    by (simp add: POST_def Map_get_def world0_def apple_def pear_def alice_def env0_def
        splice1_def list_ex_iff Let_def)
qed

text \<open>
  C4. A \<^verbatim>\<open>collectFood\<close> by a present player that names a food id not in the food list is
  answered \<^verbatim>\<open>{success: false}\<close> and the world state stays exactly as it was: players,
  scores, food list and \<^verbatim>\<open>lastUpdate\<close>.
\<close>

theorem collectFood_missing_food_noop:
  assumes "Map_has (GameState.players gs) playerId"
      and "\<forall>f \<in> set (GameState.food gs). Food.id f \<noteq> foodId"
  shows "POST now e (CollectFood playerId foodId) gs = (Fail, gs)"
proof -
  from assms(2) have "findIndex (\<lambda>f. Food.id f = foodId) (GameState.food gs) = None"
    by (simp add: findIndex_None_iff)
  then show ?thesis
    by (simp add: POST_def split: option.splits)
qed

theorem collectFood_missing_food_noop_witness:
  "Map_has (GameState.players world0) ''a'' \<and>
   list_all (\<lambda>f. Food.id f \<noteq> ''food-9-0.1'') (GameState.food world0) \<and>
   POST 100000 env0 (CollectFood ''a'' ''food-9-0.1'') world0 = (Fail, world0)"
proof -
  have present: "Map_has (GameState.players world0) ''a''"
    by (simp add: Map_has_def Map_get_def world0_def)
  have absent: "\<forall>f \<in> set (GameState.food world0). Food.id f \<noteq> ''food-9-0.1''"
    by (simp add: world0_def apple_def pear_def)
  from collectFood_missing_food_noop [OF present absent] present absent
  show ?thesis by (simp add: list_all_iff)
qed

text \<open>
  C5. A reaping pass at clock reading \<open>now\<close> keeps exactly the players with
  \<open>now - lastUpdate \<le> 10000\<close>, in their order and unchanged, and removes the others. It
  assigns \<open>now\<close> to the world's \<^verbatim>\<open>lastUpdate\<close> once if it removed anyone, however many, and
  leaves \<^verbatim>\<open>lastUpdate\<close> alone if it removed no one; so a pass that removed someone leaves
  \<^verbatim>\<open>lastUpdate\<close> strictly greater than before when its clock reading is later than the value
  before. The food list is not touched.
\<close>

theorem cleanupPlayers_evicts_stale:
  assumes "distinct (map fst (GameState.players gs))"
  shows "GameState.players (cleanupPlayers now gs) =
           filter (\<lambda>e. \<not> now - Player.lastUpdate (snd e) > 10000) (GameState.players gs) \<and>
         GameState.lastUpdate (cleanupPlayers now gs) =
           (if \<exists>e \<in> set (GameState.players gs). now - Player.lastUpdate (snd e) > 10000
            then now else GameState.lastUpdate gs) \<and>
         (GameState.lastUpdate gs < now \<and>
          (\<exists>e \<in> set (GameState.players gs). now - Player.lastUpdate (snd e) > 10000) \<longrightarrow>
            GameState.lastUpdate gs < GameState.lastUpdate (cleanupPlayers now gs)) \<and>
         GameState.food (cleanupPlayers now gs) = GameState.food gs"
proof -
  let ?old = "\<lambda>e. now - Player.lastUpdate (snd e) > 10000"
  let ?ids = "map fst (filter ?old (GameState.players gs))"
  have keep: "fst e \<notin> set ?ids \<longleftrightarrow> \<not> ?old e" if "e \<in> set (GameState.players gs)" for e
  proof
    assume "fst e \<notin> set ?ids"
    with that show "\<not> ?old e" by force
  next
    assume fresh: "\<not> ?old e"
    show "fst e \<notin> set ?ids"
    proof
      assume "fst e \<in> set ?ids"
      then obtain e' where e': "e' \<in> set (GameState.players gs)" "?old e'" "fst e' = fst e"
        by auto
      from distinct_keys_unique [OF assms e'(1) that e'(3)] e'(2) fresh
      show False by simp
    qed
  qed
  have "filter (\<lambda>e. fst e \<notin> set ?ids) (GameState.players gs) =
      filter (\<lambda>e. \<not> ?old e) (GameState.players gs)"
    by (rule filter_cong [OF refl]) (rule keep)
  then have "fold (\<lambda>k m. Map_delete m k) ?ids (GameState.players gs) =
      filter (\<lambda>e. \<not> ?old e) (GameState.players gs)"
    by (simp only: fold_Map_delete)
  moreover have "(length ?ids > 0) = (\<exists>e \<in> set (GameState.players gs). ?old e)"
    by (simp add: filter_empty_conv)
  ultimately show ?thesis
    by (simp add: cleanupPlayers_def stale_def PLAYER_TIMEOUT_def Let_def)
qed

text \<open>
  The witness reaps the example world twice: at 100000 Alice (last active at 1000) goes,
  Bob stays and \<^verbatim>\<open>lastUpdate\<close> goes from 95000 to 100000; at 11000 Alice is exactly 10000 ms
  old, which is not older than the timeout, and the world is unchanged.
\<close>

theorem cleanupPlayers_evicts_stale_witness:
  "distinct (map fst (GameState.players world0)) \<and>
   GameState.lastUpdate world0 < 100000 \<and>
   list_ex (\<lambda>e. 100000 - Player.lastUpdate (snd e) > 10000) (GameState.players world0) \<and>
   cleanupPlayers 100000 world0 =
     \<lparr> GameState.players = [(''b'', bob)], food = [apple, pear], lastUpdate = 100000 \<rparr> \<and>
   GameState.lastUpdate world0 < GameState.lastUpdate (cleanupPlayers 100000 world0) \<and>
   cleanupPlayers 11000 world0 = world0"
proof -
  have keys: "distinct (map fst (GameState.players world0))"
    by (simp add: world0_def)
  have clock: "GameState.lastUpdate world0 < 100000"
    by (simp add: world0_def)
  have old: "\<exists>e \<in> set (GameState.players world0). 100000 - Player.lastUpdate (snd e) > 10000"
    by (simp add: world0_def alice_def)
  from cleanupPlayers_evicts_stale [OF keys, of 100000] clock old
  have later: "GameState.lastUpdate world0 < GameState.lastUpdate (cleanupPlayers 100000 world0)"
    by blast
  from cleanupPlayers_evicts_stale [OF keys, of 11000] keys clock old later
  show ?thesis
    by (simp add: cleanupPlayers_def stale_def PLAYER_TIMEOUT_def Let_def Map_delete_def
        world0_def alice_def bob_def list_ex_iff)
qed

text \<open>
  As a bump of a counter the claim fails: a pass in the millisecond \<^verbatim>\<open>lastUpdate\<close> already
  shows removes Alice and leaves \<^verbatim>\<open>lastUpdate\<close> where it was.
\<close>

theorem cleanupPlayers_same_millisecond_counterexample:
  "GameState.players (cleanupPlayers 95000 world0) = [(''b'', bob)] \<and>
   \<not> GameState.lastUpdate world0 < GameState.lastUpdate (cleanupPlayers 95000 world0)"
  by (simp add: cleanupPlayers_def stale_def PLAYER_TIMEOUT_def Let_def Map_delete_def
      world0_def alice_def bob_def)

text \<open>
  C6. \<^verbatim>\<open>GET\<close> runs a reaping pass and then reads: the state it leaves is the state after
  \<^verbatim>\<open>cleanupPlayers\<close>, and the snapshot is made of that state's players projected to the six
  public fields, the food list (which the pass never changes) and that state's \<^verbatim>\<open>lastUpdate\<close>.
  When no player is older than the timeout at the time of the read, \<^verbatim>\<open>GET\<close> leaves the whole
  world state as it was and the snapshot is that of the state before.
\<close>

theorem GET_reaps_then_reads:
  "snd (GET now gs) = cleanupPlayers now gs \<and>
   fst (GET now gs) =
     Snapshot (playersData (snd (GET now gs))) (GameState.food gs)
       (GameState.lastUpdate (snd (GET now gs))) \<and>
   ((\<forall>e \<in> set (GameState.players gs). \<not> now - Player.lastUpdate (snd e) > 10000) \<longrightarrow>
      GET now gs = (Snapshot (playersData gs) (GameState.food gs) (GameState.lastUpdate gs), gs))"
proof -
  have "cleanupPlayers now gs = gs"
    if "\<forall>e \<in> set (GameState.players gs). \<not> now - Player.lastUpdate (snd e) > 10000"
    using that by (intro cleanupPlayers_none_stale) (simp add: stale_def PLAYER_TIMEOUT_def)
  then show ?thesis
    by (simp add: GET_def Let_def food_cleanupPlayers)
qed

text \<open>The witness reads the example world at 11000, when nobody is older than the timeout.\<close>

theorem GET_reaps_then_reads_witness:
  "list_all (\<lambda>e. \<not> 11000 - Player.lastUpdate (snd e) > 10000) (GameState.players world0) \<and>
   GET 11000 world0 =
     (Snapshot
        [\<lparr> PlayerData.id = ''a'', username = ''Alice'', x = Num 10, y = Num 10,
            color = ''#FF6B6B'', score = 5 \<rparr>,
         \<lparr> PlayerData.id = ''b'', username = ''Bob'', x = Num 300, y = Num 200,
            color = ''#4ECDC4'', score = 2 \<rparr>]
        [apple, pear] 95000,
      world0)"
proof -
  have fresh: "\<forall>e \<in> set (GameState.players world0). \<not> 11000 - Player.lastUpdate (snd e) > 10000"
    by (simp add: world0_def alice_def bob_def)
  from GET_reaps_then_reads [of 11000 world0] fresh
  have "GET 11000 world0 =
      (Snapshot (playersData world0) (GameState.food world0) (GameState.lastUpdate world0), world0)"
    by blast
  with fresh show ?thesis
    by (simp add: list_all_iff playersData_def Map_values_def world0_def alice_def bob_def)
qed

text \<open>
  As a pure read the claim fails: a \<^verbatim>\<open>GET\<close> at 100000 evicts Alice from the example world.
\<close>

theorem GET_reaps_counterexample:
  "snd (GET 100000 world0) \<noteq> world0"
  by (simp add: GET_def cleanupPlayers_def stale_def PLAYER_TIMEOUT_def Let_def Map_delete_def
      world0_def alice_def bob_def)

text \<open>
  C7. A join whose player id is already present is accepted: the answer is
  \<^verbatim>\<open>{success: true, player}\<close> with a newly made player (the given id and name, score \<open>0\<close>, last
  activity \<open>now\<close>), and that player replaces the record stored under the id. The keys of the
  map and their order stay as they were, every other player is unchanged, and \<^verbatim>\<open>lastUpdate\<close>
  becomes \<open>now\<close>.
\<close>

theorem join_replaces_existing:
  assumes "Map_get (GameState.players gs) playerId = Some old"
  shows "\<exists>newPlayer.
           fst (POST now e (Join playerId uname) gs) = JoinOk newPlayer \<and>
           Player.id newPlayer = playerId \<and> Player.username newPlayer = uname \<and>
           Player.score newPlayer = 0 \<and> Player.lastUpdate newPlayer = now \<and>
           Map_get (GameState.players (snd (POST now e (Join playerId uname) gs))) playerId =
             Some newPlayer \<and>
           map fst (GameState.players (snd (POST now e (Join playerId uname) gs))) =
             map fst (GameState.players gs) \<and>
           (\<forall>k. k \<noteq> playerId \<longrightarrow>
              Map_get (GameState.players (snd (POST now e (Join playerId uname) gs))) k =
                Map_get (GameState.players gs) k) \<and>
           GameState.lastUpdate (snd (POST now e (Join playerId uname) gs)) = now"
  using assms
  by (simp add: POST_def Let_def players_initializeFood Map_get_set
      keys_Map_set_present [of _ _ old])

text \<open>The witness joins as \<open>a\<close> again on the example world.\<close>

theorem join_replaces_existing_witness:
  "Map_get (GameState.players world0) ''a'' = Some alice \<and>
   POST 100000 env0 (Join ''a'' ''Zed'') world0 =
     (JoinOk \<lparr> Player.id = ''a'', username = ''Zed'', x = Num 195, y = Num 290,
               color = ''#FF6B6B'', score = 0, lastUpdate = 100000 \<rparr>,
      \<lparr> GameState.players =
          [(''a'', \<lparr> Player.id = ''a'', username = ''Zed'', x = Num 195, y = Num 290,
                     color = ''#FF6B6B'', score = 0, lastUpdate = 100000 \<rparr>),
           (''b'', bob)],
        food = [apple, pear], lastUpdate = 100000 \<rparr>)"
proof -
  have present: "Map_get (GameState.players world0) ''a'' = Some alice"
    by (simp add: Map_get_def world0_def)
  from join_replaces_existing [OF present, of 100000 env0 "''Zed''"] present
  show ?thesis
    by (simp add: POST_def Let_def initializeFood_def world0_def env0_def generateColor_def
        pick_def playerColors_def CANVAS_WIDTH_def CANVAS_HEIGHT_def PLAYER_SIZE_def)
qed

text \<open>
  There is no check for a duplicate id in the handler: joining as \<open>a\<close> while Alice holds that
  id succeeds and the record stored under \<open>a\<close> is no longer hers.
\<close>

theorem join_duplicate_id_counterexample:
  "Map_has (GameState.players world0) ''a'' \<and>
   fst (POST 100000 env0 (Join ''a'' ''Zed'') world0) =
     JoinOk \<lparr> Player.id = ''a'', username = ''Zed'', x = Num 195, y = Num 290,
              color = ''#FF6B6B'', score = 0, lastUpdate = 100000 \<rparr> \<and>
   Map_get (GameState.players (snd (POST 100000 env0 (Join ''a'' ''Zed'') world0))) ''a'' \<noteq>
     Map_get (GameState.players world0) ''a''"
  by (simp add: POST_def Let_def initializeFood_def world0_def env0_def generateColor_def
      pick_def playerColors_def CANVAS_WIDTH_def CANVAS_HEIGHT_def PLAYER_SIZE_def
      Map_has_def Map_get_def alice_def)

text \<open>
  C8. A heartbeat that names a present player is answered \<^verbatim>\<open>{success: true}\<close> and changes
  one thing: in that player's entry the last-activity timestamp becomes \<open>now\<close>. The entry
  keeps its place and its position, colour, name and score; the entries before and after
  it, the food list and the world's \<^verbatim>\<open>lastUpdate\<close> are as before.
\<close>

theorem heartbeat_touches_only_timestamp:
  assumes "Map_get (GameState.players gs) playerId = Some player"
  shows "\<exists>ps qs.
           GameState.players gs = ps @ (playerId, player) # qs \<and>
           playerId \<notin> fst ` set ps \<and>
           POST now e (Heartbeat playerId) gs =
             (Ack, gs\<lparr>GameState.players :=
                        ps @ (playerId, player\<lparr>Player.lastUpdate := now\<rparr>) # qs\<rparr>)"
proof -
  from Map_set_split [OF assms, of "player\<lparr>Player.lastUpdate := now\<rparr>"]
  obtain ps qs where
    "GameState.players gs = ps @ (playerId, player) # qs"
    "playerId \<notin> fst ` set ps"
    "Map_set (GameState.players gs) playerId (player\<lparr>Player.lastUpdate := now\<rparr>) =
       ps @ (playerId, player\<lparr>Player.lastUpdate := now\<rparr>) # qs"
    by blast
  with assms show ?thesis
    by (intro exI [of _ ps] exI [of _ qs]) (simp add: POST_def)
qed

text \<open>The witness is a heartbeat of Bob on the example world.\<close>

theorem heartbeat_touches_only_timestamp_witness:
  "Map_get (GameState.players world0) ''b'' = Some bob \<and>
   POST 100000 env0 (Heartbeat ''b'') world0 =
     (Ack, world0\<lparr>GameState.players := [(''a'', alice), (''b'', bob\<lparr>Player.lastUpdate := 100000\<rparr>)]\<rparr>)"
proof -
  have present: "Map_get (GameState.players world0) ''b'' = Some bob"
    by (simp add: Map_get_def world0_def)
  from heartbeat_touches_only_timestamp [OF present, of 100000 env0] present
  show ?thesis by (simp add: POST_def world0_def Map_get_def)
qed

text \<open>
  C9. The pending move is one cell and a frame that queues overwrites it (lemmas
  \<open>frames_cell_latest\<close> and \<open>sendPending_reads_cell\<close>), but the network tick never sends it.
  In the session below the user has typed a name, joined with the id \<open>me\<close> and stands at
  \<open>(2, 2)\<close>; a frame with \<open>s\<close> and \<open>d\<close> held queues \<open>(5, 5)\<close> and a frame with \<open>d\<close> held queues
  \<open>(8, 5)\<close>. The callback of the interval reads the empty \<^verbatim>\<open>myPlayerId\<close> of the render in which
  \<^verbatim>\<open>connectToGame\<close> was made, so the tick that follows issues no request, neither \<open>(5, 5)\<close> nor
  \<open>(8, 5)\<close>, and the cell still holds \<open>(8, 5)\<close> after it.
\<close>

theorem pending_move_never_sent:
  "myPlayerId session0 = ''me'' \<and>
   updateIntervalRef session0 = Some [] \<and>
   movementQueueRef session0 = None \<and>
   movementQueueRef (frames [{''s'', ''d''}] session0) = Some (5, 5) \<and>
   movementQueueRef (frames [{''s'', ''d''}, {''d''}] session0) = Some (8, 5) \<and>
   fst (updateGame True (frames [{''s'', ''d''}, {''d''}] session0)) = [] \<and>
   movementQueueRef (snd (updateGame True (frames [{''s'', ''d''}, {''d''}] session0))) =
     Some (8, 5)"
proof -
  let ?c5 = "\<lambda>ks. \<lparr> gameState = playing, username = ''Me'', myPlayerId = ''me'',
        players = [''me'' \<mapsto> me\<lparr>ClientPlayer.x := 5, ClientPlayer.y := 5\<rparr>],
        keysRef = ks, lastPositionRef = (5, 5), movementQueueRef = Some (5, 5),
        connectToGame_myPlayerId = [], updateIntervalRef = Some [] \<rparr>"
  let ?c8 = "\<lparr> gameState = playing, username = ''Me'', myPlayerId = ''me'',
        players = [''me'' \<mapsto> me\<lparr>ClientPlayer.x := 8, ClientPlayer.y := 5\<rparr>],
        keysRef = {''d''}, lastPositionRef = (8, 5), movementQueueRef = Some (8, 5),
        connectToGame_myPlayerId = [], updateIntervalRef = Some [] \<rparr>"
  have start: "session0 =
      \<lparr> gameState = playing, username = ''Me'', myPlayerId = ''me'',
        players = [''me'' \<mapsto> me], keysRef = {}, lastPositionRef = (0, 0),
        movementQueueRef = None, connectToGame_myPlayerId = [], updateIntervalRef = Some [] \<rparr>"
    by (simp add: session0_def connectToGame_def startGameUpdates_def setUsername_def
        mounted_def Let_def)
  have first: "gameLoop (session0\<lparr>keysRef := {''s'', ''d''}\<rparr>) = ?c5 {''s'', ''d''}"
    by (simp add: start gameLoop_def me_def Let_def MOVE_SPEED_def
        CANVAS_WIDTH_def CANVAS_HEIGHT_def PLAYER_SIZE_def cong: let_weak_cong)
  have second: "gameLoop (?c5 {''d''}) = ?c8"
    by (simp add: gameLoop_def me_def Let_def MOVE_SPEED_def
        CANVAS_WIDTH_def CANVAS_HEIGHT_def PLAYER_SIZE_def cong: let_weak_cong)
  have one: "frames [{''s'', ''d''}] session0 = ?c5 {''s'', ''d''}"
    by (simp add: frames_def first)
  have two: "frames [{''s'', ''d''}, {''d''}] session0 = ?c8"
    by (simp add: frames_def first second)
  have joined: "myPlayerId session0 = ''me'' \<and> updateIntervalRef session0 = Some [] \<and>
      movementQueueRef session0 = None"
    by (simp add: start)
  have tick: "updateGame True ?c8 = ([], ?c8)"
    by (simp add: updateGame_def updateGame_sendPending_def)
  from joined show ?thesis
    by (simp add: one two tick)
qed

text \<open>
  C10. A \<^verbatim>\<open>collectFood\<close> whose player id is not in the map is answered \<^verbatim>\<open>{success: false}\<close>
  and leaves the whole world state as it was, whether or not the food id is in the list.
\<close>

theorem collectFood_unknown_player_noop:
  assumes "\<not> Map_has (GameState.players gs) playerId"
  shows "POST now e (CollectFood playerId foodId) gs = (Fail, gs)"
  using assms by (simp add: POST_def Map_has_def split: option.splits)

text \<open>The witness names a food item that is in the list of the example world.\<close>

theorem collectFood_unknown_player_noop_witness:
  "\<not> Map_has (GameState.players world0) ''zed'' \<and>
   list_ex (\<lambda>f. Food.id f = ''food-1-0.5'') (GameState.food world0) \<and>
   POST 100000 env0 (CollectFood ''zed'' ''food-1-0.5'') world0 = (Fail, world0)"
proof -
  have absent: "\<not> Map_has (GameState.players world0) ''zed''"
    by (simp add: Map_has_def Map_get_def world0_def)
  have "list_ex (\<lambda>f. Food.id f = ''food-1-0.5'') (GameState.food world0)"
    by (simp add: world0_def apple_def)
  with collectFood_unknown_player_noop [OF absent] absent
  show ?thesis by simp
qed

end
